theory Spec2Isabelle
  imports Complex_Main "HOL-Library.Sublist" "HOL-Library.AList"
begin

section \<open>Python strings\<close>

text \<open>
  A Python \<open>str\<close> is modelled as a \<open>string\<close>, one \<open>char\<close> per code point; the model
  covers the code points below 256 (ASCII and Latin-1). On that range \<open>str.lower()\<close>
  works code point by code point: the upper-case letters are U+0041..U+005A and
  U+00C0..U+00DE without the multiplication sign U+00D7, and each is mapped to the code
  point 32 above it. Bit 5 (value 32) is clear in every one of them, so adding 32 is
  setting that bit.
\<close>

definition is_upper :: "char \<Rightarrow> bool" where
  "is_upper c =
     (let n = (of_char c :: nat)
      in (65 \<le> n \<and> n \<le> 90) \<or> (192 \<le> n \<and> n \<le> 222 \<and> n \<noteq> 215))"

definition lower_char :: "char \<Rightarrow> char" where
  "lower_char c =
     (if is_upper c
      then Char (digit0 c) (digit1 c) (digit2 c) (digit3 c) (digit4 c) True (digit6 c) (digit7 c)
      else c)"

definition lower :: "string \<Rightarrow> string" where
  "lower s = map lower_char s"

text \<open>
  \<open>sub in s\<close> on strings: \<open>sub\<close> occurs in \<open>s\<close> as a contiguous block, starting at
  some position of \<open>s\<close> (the empty string occurs in every string).
\<close>

fun str_in :: "string \<Rightarrow> string \<Rightarrow> bool" where
  "str_in sub [] = (sub = [])"
| "str_in sub (c # cs) = (prefix sub (c # cs) \<or> str_in sub cs)"

text \<open>\<open>any(kw in s for kw in kws)\<close>.\<close>

fun any_in :: "string list \<Rightarrow> string \<Rightarrow> bool" where
  "any_in [] s = False"
| "any_in (kw # kws) s = (str_in kw s \<or> any_in kws s)"

section \<open>Intent detection\<close>

text \<open>The string constants of class \<open>MessageIntent\<close> that the classifier returns.\<close>

definition PRODUCT_INQUIRY :: string where
  "PRODUCT_INQUIRY = ''product_inquiry''"

definition ORDER_LOOKUP :: string where
  "ORDER_LOOKUP = ''order_lookup''"

definition GENERAL_QUESTION :: string where
  "GENERAL_QUESTION = ''general_question''"

definition SHIPPING_QUESTION :: string where
  "SHIPPING_QUESTION = ''shipping_question''"

definition RETURN_REQUEST :: string where
  "RETURN_REQUEST = ''return_request''"

definition order_keywords :: "string list" where
  "order_keywords =
     [''order'', ''tracking'', ''track'', ''delivery'', ''shipped'', ''where is'']"

definition product_keywords :: "string list" where
  "product_keywords =
     [''product'', ''buy'', ''purchase'', ''price'', ''cost'', ''sell'', ''have'']"

definition return_keywords :: "string list" where
  "return_keywords = [''return'', ''refund'', ''exchange'', ''cancel'']"

definition shipping_keywords :: "string list" where
  "shipping_keywords = [''shipping'', ''ship'', ''deliver'', ''delivery time'']"

text \<open>
  \<open>GeminiService._detect_intent\<close>: the four keyword lists are tried in the order of the
  source and the first list with a keyword in the lower-cased message decides. The
  second argument is not read, as in the source.
\<close>

definition detect_intent :: "string \<Rightarrow> string \<Rightarrow> string" where
  "detect_intent customer_message ai_response =
     (let message_lower = lower customer_message
      in if any_in order_keywords message_lower then ORDER_LOOKUP
         else if any_in product_keywords message_lower then PRODUCT_INQUIRY
         else if any_in return_keywords message_lower then RETURN_REQUEST
         else if any_in shipping_keywords message_lower then SHIPPING_QUESTION
         else GENERAL_QUESTION)"

section \<open>Reference extraction\<close>

text \<open>
  A catalog row is a dict read from the products table. \<open>id\<close> is the primary key and
  \<open>price\<close> a required column: both are always there, and \<open>p_price\<close> holds the text
  that formatting the price gives. \<open>name\<close> is a required text column, read with
  \<open>product.get("name", "")\<close>: \<open>None\<close> stands for a dict without the key.
  \<open>description\<close> is a nullable column.
\<close>

datatype 'a column = Absent | Null | Value 'a

record product =
  p_id :: string
  p_name :: "string option"
  p_price :: string
  p_description :: "string column"

text \<open>\<open>d.get(key, default)\<close> on a key whose value, when there, is not \<open>None\<close>.\<close>

definition get_or :: "'a option \<Rightarrow> 'a \<Rightarrow> 'a" where
  "get_or v dflt = (case v of None \<Rightarrow> dflt | Some x \<Rightarrow> x)"

text \<open>
  The loop of \<open>GeminiService._extract_product_references\<close>: it walks the catalog in
  its own order and appends the id of every product whose lower-cased, non-empty name
  occurs in the lower-cased response.
\<close>

fun collect_references :: "string \<Rightarrow> product list \<Rightarrow> string list \<Rightarrow> string list" where
  "collect_references response_lower [] referenced_ids = referenced_ids"
| "collect_references response_lower (product # products) referenced_ids =
     (let product_name = lower (get_or (p_name product) [])
      in if product_name \<noteq> [] \<and> str_in product_name response_lower
         then collect_references response_lower products (referenced_ids @ [p_id product])
         else collect_references response_lower products referenced_ids)"

definition extract_product_references :: "string \<Rightarrow> product list \<Rightarrow> string list" where
  "extract_product_references ai_response products =
     (let response_lower = lower ai_response
      in take 5 (collect_references response_lower products []))"

text \<open>
  The words of the specification, for comparison with the code. A product is mentioned
  when its lower-cased name is not empty and occurs in the lower-cased response;
  \<open>first_mention\<close> is the position at which a name first occurs in a text (what
  \<open>str.find\<close> returns for a name that occurs); \<open>first_mention_references\<close> lists the
  mentioned products by the position of their first mention and keeps the first five.
\<close>

definition mentioned :: "string \<Rightarrow> product \<Rightarrow> bool" where
  "mentioned ai_response product =
     (lower (get_or (p_name product) []) \<noteq> [] \<and>
      str_in (lower (get_or (p_name product) [])) (lower ai_response))"

fun first_mention :: "string \<Rightarrow> string \<Rightarrow> nat" where
  "first_mention sub [] = 0"
| "first_mention sub (c # cs) =
     (if prefix sub (c # cs) then 0 else Suc (first_mention sub cs))"

definition first_mention_references :: "string \<Rightarrow> product list \<Rightarrow> string list" where
  "first_mention_references ai_response products =
     take 5 (map p_id
       (sort_key (\<lambda>p. first_mention (lower (get_or (p_name p) [])) (lower ai_response))
          (filter (mentioned ai_response) products)))"

section \<open>Provider payloads\<close>

text \<open>
  What \<open>response.json()\<close> returns: any JSON value. A dict is the list of its items, read
  with \<open>map_of\<close>.
\<close>

datatype json =
    JNull
  | JBool bool
  | JInt int
  | JFloat rat
  | JStr string
  | JArr "json list"
  | JObj "(string \<times> json) list"

text \<open>
  The exceptions of the service. Those the interpreter raises carry the text of
  \<open>str(e)\<close>; \<open>ExternalAPIException\<close> carries the attributes that
  \<open>AppException.__init__\<close> stores: message, status code, code and details.
\<close>

datatype exn =
    ValueError string
  | KeyError string
  | IndexError string
  | TypeError string
  | AttributeError string
  | ExternalAPIException string nat string "(string \<times> json) list"

fun str_exn :: "exn \<Rightarrow> string" where
  "str_exn (ValueError m) = m"
| "str_exn (KeyError m) = m"
| "str_exn (IndexError m) = m"
| "str_exn (TypeError m) = m"
| "str_exn (AttributeError m) = m"
| "str_exn (ExternalAPIException message status_code code details) = message"

fun type_name :: "json \<Rightarrow> string" where
  "type_name JNull = ''NoneType''"
| "type_name (JBool b) = ''bool''"
| "type_name (JInt i) = ''int''"
| "type_name (JFloat r) = ''float''"
| "type_name (JStr s) = ''str''"
| "type_name (JArr xs) = ''list''"
| "type_name (JObj kvs) = ''dict''"

text \<open>\<open>bool(x)\<close>, which \<open>not x\<close> negates.\<close>

fun truthy :: "json \<Rightarrow> bool" where
  "truthy JNull = False"
| "truthy (JBool b) = b"
| "truthy (JInt i) = (i \<noteq> 0)"
| "truthy (JFloat r) = (r \<noteq> 0)"
| "truthy (JStr s) = (s \<noteq> [])"
| "truthy (JArr xs) = (xs \<noteq> [])"
| "truthy (JObj kvs) = (kvs \<noteq> [])"

text \<open>The text of \<open>'T' object has no attribute 'a'\<close> and of its sibling.\<close>

definition quoted :: "string \<Rightarrow> string" where
  "quoted s = [CHR 0x27] @ s @ [CHR 0x27]"

definition no_attribute :: "json \<Rightarrow> string \<Rightarrow> string" where
  "no_attribute x a = quoted (type_name x) @ '' object has no attribute '' @ quoted a"

definition not_subscriptable :: "json \<Rightarrow> string" where
  "not_subscriptable x = quoted (type_name x) @ '' object is not subscriptable''"

text \<open>\<open>x.get(key, default)\<close>: only a dict has the method.\<close>

fun py_get :: "json \<Rightarrow> string \<Rightarrow> json \<Rightarrow> exn + json" where
  "py_get (JObj kvs) key dflt =
     Inr (case map_of kvs key of None \<Rightarrow> dflt | Some v \<Rightarrow> v)"
| "py_get x key dflt = Inl (AttributeError (no_attribute x ''get''))"

text \<open>
  \<open>x[0]\<close>: the first element of a list, the first character of a string, the value at
  the key \<open>0\<close> of a dict (a JSON object has string keys only, so there is none).
\<close>

fun py_index0 :: "json \<Rightarrow> exn + json" where
  "py_index0 (JArr []) = Inl (IndexError ''list index out of range'')"
| "py_index0 (JArr (v # vs)) = Inr v"
| "py_index0 (JStr []) = Inl (IndexError ''string index out of range'')"
| "py_index0 (JStr (c # cs)) = Inr (JStr [c])"
| "py_index0 (JObj kvs) = Inl (KeyError ''0'')"
| "py_index0 x = Inl (TypeError (not_subscriptable x))"

text \<open>
  \<open>str.strip()\<close> removes the white space at both ends. Below 256 the white-space code
  points are 9..13, 28..32, 133 and 160.
\<close>

definition is_space :: "char \<Rightarrow> bool" where
  "is_space c =
     (let n = (of_char c :: nat)
      in (9 \<le> n \<and> n \<le> 13) \<or> (28 \<le> n \<and> n \<le> 32) \<or> n = 133 \<or> n = 160)"

definition strip :: "string \<Rightarrow> string" where
  "strip s = rev (dropWhile is_space (rev (dropWhile is_space s)))"

fun py_strip :: "json \<Rightarrow> exn + string" where
  "py_strip (JStr s) = Inr (strip s)"
| "py_strip x = Inl (AttributeError (no_attribute x ''strip''))"

definition APOLOGY :: string where
  "APOLOGY =
     ''I apologize, but I couldn't generate a proper response. Please try again.''"

text \<open>
  The body of the \<open>try\<close> block of \<open>GeminiService._extract_response_text\<close>, every
  exception a left value.
\<close>

definition response_text_try :: "json \<Rightarrow> exn + string" where
  "response_text_try response_data =
     (case py_get response_data ''candidates'' (JArr []) of
        Inl e \<Rightarrow> Inl e
      | Inr candidates \<Rightarrow>
          if \<not> truthy candidates then Inl (ValueError ''No candidates in response'')
          else (case py_index0 candidates of
             Inl e \<Rightarrow> Inl e
           | Inr candidate \<Rightarrow>
               (case py_get candidate ''content'' (JObj []) of
                  Inl e \<Rightarrow> Inl e
                | Inr content \<Rightarrow>
                    (case py_get content ''parts'' (JArr []) of
                       Inl e \<Rightarrow> Inl e
                     | Inr parts \<Rightarrow>
                         if \<not> truthy parts then Inl (ValueError ''No parts in response'')
                         else (case py_index0 parts of
                            Inl e \<Rightarrow> Inl e
                          | Inr part \<Rightarrow>
                              (case py_get part ''text'' (JStr []) of
                                 Inl e \<Rightarrow> Inl e
                               | Inr text \<Rightarrow> py_strip text))))))"

text \<open>
  \<open>GeminiService._extract_response_text\<close>: \<open>except Exception\<close> catches whatever the
  block raises and returns the apology.
\<close>

definition extract_response_text :: "json \<Rightarrow> string" where
  "extract_response_text response_data =
     (case response_text_try response_data of
        Inl e \<Rightarrow> APOLOGY
      | Inr text \<Rightarrow> text)"

text \<open>
  The path \<open>candidates[0].content.parts[0]\<close> of the provider's schema: the first part
  of the first candidate, when the payload is a dict whose \<open>candidates\<close> is a list that
  starts with a dict, whose \<open>content\<close> is a dict, whose \<open>parts\<close> is a list that starts
  with a dict. \<open>nested_text\<close> is the string at \<open>text\<close> in that part.
\<close>

definition first_part :: "json \<Rightarrow> (string \<times> json) list option" where
  "first_part response_data =
     (case response_data of
        JObj items \<Rightarrow>
          (case map_of items ''candidates'' of
             Some (JArr (JObj candidate # cs)) \<Rightarrow>
               (case map_of candidate ''content'' of
                  Some (JObj content) \<Rightarrow>
                    (case map_of content ''parts'' of
                       Some (JArr (JObj part # ps)) \<Rightarrow> Some part
                     | _ \<Rightarrow> None)
                | _ \<Rightarrow> None)
           | _ \<Rightarrow> None)
      | _ \<Rightarrow> None)"

definition nested_text :: "json \<Rightarrow> string option" where
  "nested_text response_data =
     (case first_part response_data of
        None \<Rightarrow> None
      | Some part \<Rightarrow>
          (case map_of part ''text'' of
             Some (JStr text) \<Rightarrow> Some text
           | _ \<Rightarrow> None))"

section \<open>Prompt composition\<close>

text \<open>
  One earlier exchange of the conversation, a dict read with
  \<open>msg.get('customer_message', '')\<close> and \<open>msg.get('ai_response', '')\<close>: \<open>None\<close> stands
  for a dict without the key.
\<close>

record turn =
  t_customer_message :: "string option"
  t_ai_response :: "string option"

text \<open>\<open>sep.join(parts)\<close>.\<close>

fun join :: "string \<Rightarrow> string list \<Rightarrow> string" where
  "join sep [] = []"
| "join sep [x] = x"
| "join sep (x # y # ys) = x @ sep @ join sep (y # ys)"

text \<open>\<open>xs[-n:]\<close> for a positive \<open>n\<close>: the last \<open>n\<close> elements, all of them when there are fewer.\<close>

definition last_n :: "nat \<Rightarrow> 'a list \<Rightarrow> 'a list" where
  "last_n n xs = drop (length xs - n) xs"

definition turn_lines :: "turn \<Rightarrow> string list" where
  "turn_lines msg =
     [''Customer: '' @ get_or (t_customer_message msg) [],
      ''Assistant: '' @ get_or (t_ai_response msg) []]"

text \<open>
  \<open>GeminiService._build_prompt\<close>. The history is optional: \<open>None\<close> and the empty list
  both skip the history block.
\<close>

definition build_prompt :: "string \<Rightarrow> string \<Rightarrow> turn list option \<Rightarrow> string" where
  "build_prompt customer_message system_prompt conversation_history =
     (let prompt_parts = [system_prompt];
          prompt_parts =
            (case conversation_history of
               None \<Rightarrow> prompt_parts
             | Some history \<Rightarrow>
                 if history = [] then prompt_parts
                 else prompt_parts @ [''\<newline>CONVERSATION HISTORY:'']
                        @ concat (map turn_lines (last_n 5 history)));
          prompt_parts =
            prompt_parts @ [''\<newline>Customer: '' @ customer_message, ''Assistant:'']
      in join ''\<newline>'' prompt_parts)"

section \<open>Store context and system prompt\<close>

text \<open>
  A row of the users table: \<open>store_name\<close> and \<open>ai_tone\<close> are read with \<open>user.get\<close>, so
  a key may be absent, hold \<open>None\<close> or hold a string. The database is what its two
  queries return: \<open>get_user_by_id\<close> a row or \<open>None\<close>, \<open>get_products\<close> the rows of a store
  up to a limit.
\<close>

record user =
  u_store_name :: "string column"
  u_ai_tone :: "string column"

record database =
  get_user_by_id :: "string \<Rightarrow> user option"
  get_products :: "string \<Rightarrow> nat \<Rightarrow> product list"

text \<open>
  \<open>d.get(key, default)\<close> on a nullable key: the result is \<open>None\<close> when the key holds
  \<open>None\<close>. \<open>fmt\<close> is what an f-string writes for such a value.
\<close>

definition col_get :: "'a column \<Rightarrow> 'a \<Rightarrow> 'a option" where
  "col_get c dflt = (case c of Absent \<Rightarrow> Some dflt | Null \<Rightarrow> None | Value x \<Rightarrow> Some x)"

definition fmt :: "string option \<Rightarrow> string" where
  "fmt v = (case v of None \<Rightarrow> ''None'' | Some s \<Rightarrow> s)"

record store_context =
  c_store_name :: "string option"
  c_ai_tone :: "string option"
  c_products :: "product list"

text \<open>\<open>GeminiService._build_context\<close>.\<close>

definition build_context :: "database \<Rightarrow> string \<Rightarrow> exn + store_context" where
  "build_context db user_id =
     (case get_user_by_id db user_id of
        None \<Rightarrow> Inl (ValueError (''User '' @ user_id @ '' not found''))
      | Some user \<Rightarrow>
          (let products = get_products db user_id 100
           in Inr \<lparr>c_store_name = col_get (u_store_name user) ''our store'',
                   c_ai_tone = col_get (u_ai_tone user) ''friendly'',
                   c_products = products\<rparr>))"

definition tone_instructions :: "(string \<times> string) list" where
  "tone_instructions =
     [(''friendly'', ''Be warm, welcoming, and conversational. Use a friendly tone.''),
      (''professional'', ''Be polite, clear, and professional. Maintain a business-like tone.''),
      (''casual'', ''Be relaxed and casual. Use simple language and feel approachable.''),
      (''energetic'', ''Be enthusiastic and upbeat! Show excitement about products.'')]"

text \<open>
  One line of the catalog excerpt. \<open>p['name']\<close> raises \<open>KeyError\<close> on a row without
  the key, and slicing the description raises \<open>TypeError\<close> when it is \<open>None\<close>.
\<close>

definition product_line :: "product \<Rightarrow> exn + string" where
  "product_line p =
     (case p_name p of
        None \<Rightarrow> Inl (KeyError (quoted ''name''))
      | Some name \<Rightarrow>
          (case col_get (p_description p) ''No description'' of
             None \<Rightarrow> Inl (TypeError (not_subscriptable JNull))
           | Some description \<Rightarrow>
               Inr (''- '' @ name @ '' ($'' @ p_price p @ '') - '' @ take 100 description)))"

fun product_lines :: "product list \<Rightarrow> exn + string list" where
  "product_lines [] = Inr []"
| "product_lines (p # ps) =
     (case product_line p of
        Inl e \<Rightarrow> Inl e
      | Inr line \<Rightarrow>
          (case product_lines ps of
             Inl e \<Rightarrow> Inl e
           | Inr lines \<Rightarrow> Inr (line # lines)))"

text \<open>\<open>GeminiService._build_system_prompt\<close>.\<close>

definition build_system_prompt :: "string \<Rightarrow> store_context \<Rightarrow> exn + string" where
  "build_system_prompt user_id ctx =
     (let store_name = c_store_name ctx;
          ai_tone = c_ai_tone ctx;
          products = c_products ctx;
          tone_instruction =
            get_or (case ai_tone of None \<Rightarrow> None | Some t \<Rightarrow> map_of tone_instructions t)
              ''Be warm, welcoming, and conversational. Use a friendly tone.''
      in case (if products \<noteq> []
               then (case product_lines (take 20 products) of
                       Inl e \<Rightarrow> Inl e
                     | Inr lines \<Rightarrow> Inr (join ''\<newline>'' lines))
               else Inr ''No products available yet.'') of
           Inl e \<Rightarrow> Inl e
         | Inr product_list \<Rightarrow>
             Inr (''You are an AI customer service assistant for '' @ fmt store_name @ ''.\<newline>''
               @ ''\<newline>''
               @ ''TONE: '' @ tone_instruction @ ''\<newline>''
               @ ''\<newline>''
               @ ''CAPABILITIES:\<newline>''
               @ ''- Answer product questions\<newline>''
               @ ''- Help customers find products\<newline>''
               @ ''- Provide order status information\<newline>''
               @ ''- Handle general inquiries\<newline>''
               @ ''\<newline>''
               @ ''PRODUCT CATALOG:\<newline>''
               @ product_list @ ''\<newline>''
               @ ''\<newline>''
               @ ''INSTRUCTIONS:\<newline>''
               @ ''1. If asked about products, recommend relevant items from the catalog\<newline>''
               @ ''2. If asked about orders, acknowledge and explain you'll look it up\<newline>''
               @ ''3. Be helpful and answer questions based on available information\<newline>''
               @ ''4. If you don't know something, say so politely\<newline>''
               @ ''5. Keep responses concise (2-3 paragraphs max)\<newline>''
               @ ''6. When mentioning a product, include the product name\<newline>''
               @ ''\<newline>''
               @ ''IMPORTANT: When recommending products, use their exact names from the catalog above.\<newline>''))"

section \<open>The provider call and the pipeline\<close>

text \<open>
  \<open>ExternalAPIException.__init__\<close>: \<open>details or {}\<close>, the service stored under
  \<open>"service"\<close> when it is given and not empty, status 502 and the code of the class.
\<close>

definition new_ExternalAPIException ::
  "string \<Rightarrow> string option \<Rightarrow> (string \<times> json) list option \<Rightarrow> exn" where
  "new_ExternalAPIException message service details =
     (let error_details = (case details of None \<Rightarrow> [] | Some d \<Rightarrow> d);
          error_details =
            (case service of
               None \<Rightarrow> error_details
             | Some s \<Rightarrow>
                 if s = [] then error_details
                 else AList.update ''service'' (JStr s) error_details)
      in ExternalAPIException message 502 ''EXTERNAL_API_ERROR'' error_details)"

text \<open>
  What the HTTP exchange of \<open>_call_gemini_api\<close> comes to, one constructor for each way
  out of its \<open>try\<close> block: the body parsed by \<open>response.json()\<close> after a status that
  \<open>raise_for_status\<close> lets pass, \<open>httpx.HTTPStatusError\<close> with the status code,
  \<open>httpx.TimeoutException\<close>, or any other exception with its text.
\<close>

datatype api_outcome =
    Returned json
  | HTTPStatusError int
  | TimeoutException
  | OtherException string

text \<open>\<open>GeminiService._call_gemini_api\<close>, the provider a function of the prompt it is sent.\<close>

definition call_gemini_api :: "(string \<Rightarrow> api_outcome) \<Rightarrow> string \<Rightarrow> exn + json" where
  "call_gemini_api provider prompt =
     (case provider prompt of
        Returned response_data \<Rightarrow> Inr response_data
      | HTTPStatusError status_code \<Rightarrow>
          Inl (new_ExternalAPIException ''Gemini API returned an error'' (Some ''gemini'')
                 (Some [(''status_code'', JInt status_code)]))
      | TimeoutException \<Rightarrow>
          Inl (new_ExternalAPIException ''Gemini API request timed out'' (Some ''gemini'') None)
      | OtherException text \<Rightarrow>
          Inl (new_ExternalAPIException ''Failed to call Gemini API'' (Some ''gemini'')
                 (Some [(''error'', JStr text)])))"

record pipeline_result =
  r_ai_response :: string
  r_intent_detected :: string
  r_products_referenced :: "string list"
  r_response_time_ms :: int

text \<open>
  The \<open>try\<close> block of \<open>GeminiService.generate_response\<close>. The elapsed time comes from
  the clock and is an argument here.
\<close>

definition generate_response_try ::
  "database \<Rightarrow> (string \<Rightarrow> api_outcome) \<Rightarrow> int \<Rightarrow> string \<Rightarrow> string \<Rightarrow> turn list option
     \<Rightarrow> exn + pipeline_result" where
  "generate_response_try db provider response_time_ms user_id customer_message
       conversation_history =
     (case build_context db user_id of
        Inl e \<Rightarrow> Inl e
      | Inr ctx \<Rightarrow>
          (case build_system_prompt user_id ctx of
             Inl e \<Rightarrow> Inl e
           | Inr system_prompt \<Rightarrow>
               (let prompt = build_prompt customer_message system_prompt conversation_history
                in case call_gemini_api provider prompt of
                     Inl e \<Rightarrow> Inl e
                   | Inr response_data \<Rightarrow>
                       (let ai_response = extract_response_text response_data;
                            intent = detect_intent customer_message ai_response;
                            product_ids =
                              extract_product_references ai_response (c_products ctx)
                        in Inr \<lparr>r_ai_response = ai_response,
                                r_intent_detected = intent,
                                r_products_referenced = product_ids,
                                r_response_time_ms = response_time_ms\<rparr>))))"

text \<open>
  \<open>GeminiService.generate_response\<close>: whatever the block raises is raised again as an
  \<open>ExternalAPIException\<close> that carries \<open>str(e)\<close>.
\<close>

definition generate_response ::
  "database \<Rightarrow> (string \<Rightarrow> api_outcome) \<Rightarrow> int \<Rightarrow> string \<Rightarrow> string \<Rightarrow> turn list option
     \<Rightarrow> exn + pipeline_result" where
  "generate_response db provider response_time_ms user_id customer_message
       conversation_history =
     (case generate_response_try db provider response_time_ms user_id customer_message
             conversation_history of
        Inl e \<Rightarrow>
          Inl (new_ExternalAPIException ''Failed to generate AI response'' (Some ''gemini'')
                 (Some [(''error'', JStr (str_exn e))]))
      | Inr result \<Rightarrow> Inr result)"

section \<open>Payload shapes and example data\<close>

text \<open>
  A payload whose first part is there but has no \<open>text\<close> key, so that
  \<open>parts[0].get("text", "")\<close> takes its default.
\<close>

definition text_key_missing :: "json \<Rightarrow> bool" where
  "text_key_missing response_data =
     (case first_part response_data of
        None \<Rightarrow> False
      | Some part \<Rightarrow> map_of part ''text'' = None)"

text \<open>The provider's success payload around one part.\<close>

definition payload_with_part :: "(string \<times> json) list \<Rightarrow> json" where
  "payload_with_part part =
     JObj [(''candidates'',
            JArr [JObj [(''content'', JObj [(''parts'', JArr [JObj part])])]])]"

definition item :: "string \<Rightarrow> string \<Rightarrow> product" where
  "item i n = \<lparr>p_id = i, p_name = Some n, p_price = ''10.00'', p_description = Absent\<rparr>"

definition catalog2 :: "product list" where
  "catalog2 =
     [\<lparr>p_id = ''123'', p_name = Some ''Wireless Headphones'', p_price = ''129.99'',
        p_description = Value ''Noise cancelling''\<rparr>,
      \<lparr>p_id = ''456'', p_name = Some ''Smart Watch'', p_price = ''199.0'',
        p_description = Absent\<rparr>]"

definition catalog7 :: "product list" where
  "catalog7 =
     [item ''p1'' ''Mug'', item ''p2'' ''Lamp'', item ''p3'' ''Desk'', item ''p4'' ''Chair'',
      item ''p5'' ''Clock'', item ''p6'' ''Vase'', item ''p7'' ''Rug'']"

definition catalog_unnamed :: "product list" where
  "catalog_unnamed =
     [\<lparr>p_id = ''n1'', p_name = Some [], p_price = ''5.00'', p_description = Absent\<rparr>,
      \<lparr>p_id = ''n2'', p_name = None, p_price = ''6.00'', p_description = Absent\<rparr>,
      item ''n3'' ''Smart Watch'']"

definition store1 :: database where
  "store1 =
     \<lparr>get_user_by_id =
        (\<lambda>user_id. if user_id = ''u1''
           then Some \<lparr>u_store_name = Value ''Gadget Hub'', u_ai_tone = Value ''casual''\<rparr>
           else None),
      get_products = (\<lambda>user_id limit. if user_id = ''u1'' then take limit catalog2 else [])\<rparr>"

section \<open>Facts about strings\<close>

lemmas lower_eval = lower_def lower_char_def is_upper_def

lemma upper_bit5_clear: "\<not> is_upper (Char b0 b1 b2 b3 b4 True b6 b7)"
  by (cases b6; cases b7) (simp_all add: is_upper_def Let_def)

text \<open>Lower-casing a character adds 32 to the code point of an upper-case letter.\<close>

lemma lower_char_code_point:
  "(of_char (lower_char c) :: nat) = (if is_upper c then of_char c + 32 else of_char c)"
proof (cases c)
  case (Char b0 b1 b2 b3 b4 b5 b6 b7)
  show ?thesis
  proof (cases b5)
    case True
    then show ?thesis using Char upper_bit5_clear by (simp add: lower_char_def)
  next
    case False
    then show ?thesis using Char by (simp add: lower_char_def)
  qed
qed

lemma lower_Nil_iff: "lower s = [] \<longleftrightarrow> s = []"
  by (simp add: lower_def)

lemma str_in_iff: "str_in sub s \<longleftrightarrow> (\<exists>pre post. s = pre @ sub @ post)"
proof (induction s)
  case Nil
  then show ?case by auto
next
  case (Cons c cs)
  show ?case
  proof
    assume "str_in sub (c # cs)"
    then consider "prefix sub (c # cs)" | "str_in sub cs" by auto
    then show "\<exists>pre post. c # cs = pre @ sub @ post"
    proof cases
      case 1
      then obtain post where "c # cs = sub @ post" by (auto simp: prefix_def)
      then have "c # cs = [] @ sub @ post" by simp
      then show ?thesis by blast
    next
      case 2
      then obtain pre post where "cs = pre @ sub @ post" using Cons.IH by blast
      then have "c # cs = (c # pre) @ sub @ post" by simp
      then show ?thesis by blast
    qed
  next
    assume "\<exists>pre post. c # cs = pre @ sub @ post"
    then obtain pre post where eq: "c # cs = pre @ sub @ post" by blast
    show "str_in sub (c # cs)"
    proof (cases pre)
      case Nil
      then have "prefix sub (c # cs)" using eq by (simp add: prefix_def)
      then show ?thesis by simp
    next
      case (Cons d pre')
      then have "cs = pre' @ sub @ post" using eq by simp
      then have "str_in sub cs" using Cons.IH by blast
      then show ?thesis by simp
    qed
  qed
qed

lemma str_in_trans:
  assumes "str_in a b" and "str_in b c"
  shows "str_in a c"
proof -
  obtain p1 q1 where b: "b = p1 @ a @ q1" using assms(1) str_in_iff by blast
  obtain p2 q2 where c: "c = p2 @ b @ q2" using assms(2) str_in_iff by blast
  have "c = (p2 @ p1) @ a @ (q1 @ q2)" using b c by simp
  then show ?thesis using str_in_iff by blast
qed

lemma any_in_iff: "any_in kws s \<longleftrightarrow> (\<exists>kw \<in> set kws. str_in kw s)"
  by (induction kws) auto

lemma strip_Nil: "strip [] = []"
  by (simp add: strip_def)

text \<open>Stripping leaves nothing exactly when every character is white space.\<close>

lemma strip_eq_Nil_iff: "strip s = [] \<longleftrightarrow> (\<forall>c \<in> set s. is_space c)"
proof -
  have "strip s = [] \<longleftrightarrow> dropWhile is_space (rev (dropWhile is_space s)) = []"
    by (simp add: strip_def)
  also have "\<dots> \<longleftrightarrow> (\<forall>c \<in> set (dropWhile is_space s). is_space c)"
    by (simp add: dropWhile_eq_Nil_conv)
  also have "\<dots> \<longleftrightarrow> (\<forall>c \<in> set s. is_space c)"
  proof
    assume a: "\<forall>c \<in> set (dropWhile is_space s). is_space c"
    show "\<forall>c \<in> set s. is_space c"
    proof (cases "dropWhile is_space s")
      case Nil
      then show ?thesis by (simp add: dropWhile_eq_Nil_conv)
    next
      case (Cons x xs)
      then have "\<not> is_space x" using hd_dropWhile [of is_space s] by simp
      moreover have "is_space x" using a Cons by simp
      ultimately show ?thesis by simp
    qed
  next
    assume "\<forall>c \<in> set s. is_space c"
    then show "\<forall>c \<in> set (dropWhile is_space s). is_space c"
      using set_dropWhileD by fastforce
  qed
  finally show ?thesis .
qed

lemma join_append2:
  "xs \<noteq> [] \<Longrightarrow> join sep (xs @ [a, b]) = join sep xs @ sep @ a @ sep @ b"
  by (induction sep xs rule: join.induct) simp_all

section \<open>Intent detection: the order of the keyword lists\<close>

lemmas intent_eval = detect_intent_def order_keywords_def product_keywords_def
  return_keywords_def shipping_keywords_def lower_def lower_char_def is_upper_def

lemma intent_labels_distinct:
  "distinct [ORDER_LOOKUP, PRODUCT_INQUIRY, RETURN_REQUEST, SHIPPING_QUESTION, GENERAL_QUESTION]"
  by (simp add: ORDER_LOOKUP_def PRODUCT_INQUIRY_def RETURN_REQUEST_def SHIPPING_QUESTION_def
      GENERAL_QUESTION_def)

text \<open>
  Claim C3. A customer message whose lower-cased text contains one of the order-lookup
  keywords "order", "tracking", "track", "delivery", "shipped", "where is" is classified
  \<open>order_lookup\<close>, whatever product, return or shipping keywords it contains as well:
  the message is arbitrary apart from the one keyword.
\<close>

theorem order_keyword_gives_order_lookup:
  assumes "kw \<in> {''order'', ''tracking'', ''track'', ''delivery'', ''shipped'', ''where is''}"
    and "str_in kw (lower customer_message)"
  shows "detect_intent customer_message ai_response = ORDER_LOOKUP"
proof -
  have "kw \<in> set order_keywords" using assms(1) by (simp add: order_keywords_def)
  then have "any_in order_keywords (lower customer_message)"
    using assms(2) any_in_iff by blast
  then show ?thesis by (simp add: detect_intent_def)
qed

text \<open>A message with an order keyword next to a product, a return and a shipping keyword.\<close>

theorem order_keyword_gives_order_lookup_witness:
  "''order'' \<in> {''order'', ''tracking'', ''track'', ''delivery'', ''shipped'', ''where is''}
   \<and> str_in ''order'' (lower ''Can I BUY a refund for my Order and its shipping?'')
   \<and> str_in ''buy'' (lower ''Can I BUY a refund for my Order and its shipping?'')
   \<and> detect_intent ''Can I BUY a refund for my Order and its shipping?'' ''Sure.'' = ORDER_LOOKUP"
proof -
  have k: "''order'' \<in> {''order'', ''tracking'', ''track'', ''delivery'', ''shipped'', ''where is''}"
    by simp
  have s: "str_in ''order'' (lower ''Can I BUY a refund for my Order and its shipping?'')"
    by (simp add: lower_eval)
  have b: "str_in ''buy'' (lower ''Can I BUY a refund for my Order and its shipping?'')"
    by (simp add: lower_eval)
  show ?thesis using k s b order_keyword_gives_order_lookup [OF k s] by blast
qed

text \<open>
  Claim C7. A customer message whose lower-cased text contains no keyword of the four
  lists is classified \<open>general_question\<close>. Classification is total: for every message
  it returns one of the five labels, and the five labels are different strings.
\<close>

theorem no_keyword_gives_general_question:
  "((\<forall>kw \<in> set (order_keywords @ product_keywords @ return_keywords @ shipping_keywords).
       \<not> str_in kw (lower customer_message))
     \<longrightarrow> detect_intent customer_message ai_response = GENERAL_QUESTION)
   \<and> detect_intent customer_message ai_response
     \<in> {ORDER_LOOKUP, PRODUCT_INQUIRY, RETURN_REQUEST, SHIPPING_QUESTION, GENERAL_QUESTION}
   \<and> distinct [ORDER_LOOKUP, PRODUCT_INQUIRY, RETURN_REQUEST, SHIPPING_QUESTION,
        GENERAL_QUESTION]"
proof (intro conjI impI)
  assume "\<forall>kw \<in> set (order_keywords @ product_keywords @ return_keywords @ shipping_keywords).
       \<not> str_in kw (lower customer_message)"
  then show "detect_intent customer_message ai_response = GENERAL_QUESTION"
    by (simp add: detect_intent_def any_in_iff)
next
  show "detect_intent customer_message ai_response
     \<in> {ORDER_LOOKUP, PRODUCT_INQUIRY, RETURN_REQUEST, SHIPPING_QUESTION, GENERAL_QUESTION}"
    by (simp add: detect_intent_def Let_def)
next
  show "distinct [ORDER_LOOKUP, PRODUCT_INQUIRY, RETURN_REQUEST, SHIPPING_QUESTION,
        GENERAL_QUESTION]"
    by (rule intent_labels_distinct)
qed

theorem no_keyword_gives_general_question_witness:
  "\<not> any_in (order_keywords @ product_keywords @ return_keywords @ shipping_keywords)
       (lower ''Hello, are you open on Sundays?'')
   \<and> detect_intent ''Hello, are you open on Sundays?'' ''Yes, every day.'' = GENERAL_QUESTION"
proof -
  have h: "\<forall>kw \<in> set (order_keywords @ product_keywords @ return_keywords @ shipping_keywords).
       \<not> str_in kw (lower ''Hello, are you open on Sundays?'')"
    by (simp add: order_keywords_def product_keywords_def return_keywords_def
        shipping_keywords_def lower_eval)
  show ?thesis
    using h no_keyword_gives_general_question
      [of "''Hello, are you open on Sundays?''" "''Yes, every day.''"]
    by (simp add: any_in_iff)
qed

text \<open>
  Claim C9. A customer message whose lower-cased text contains "delivery time" is
  classified \<open>order_lookup\<close> and never \<open>shipping_question\<close>, because "delivery" is in
  the list tried first. So "delivery time" never decides: whenever the result is
  \<open>shipping_question\<close> the message does not contain it, and one of "shipping", "ship",
  "deliver" is there.
\<close>

theorem delivery_time_never_decides:
  "(str_in ''delivery time'' (lower customer_message) \<longrightarrow>
      detect_intent customer_message ai_response = ORDER_LOOKUP
      \<and> detect_intent customer_message ai_response \<noteq> SHIPPING_QUESTION)
   \<and> (detect_intent customer_message ai_response = SHIPPING_QUESTION \<longrightarrow>
      \<not> str_in ''delivery time'' (lower customer_message)
      \<and> (\<exists>kw \<in> {''shipping'', ''ship'', ''deliver''}. str_in kw (lower customer_message)))"
proof -
  have sub: "str_in ''delivery'' ''delivery time''" by simp
  have order: "detect_intent customer_message ai_response = ORDER_LOOKUP"
    if "str_in ''delivery time'' (lower customer_message)"
  proof -
    have "str_in ''delivery'' (lower customer_message)"
      using sub that by (rule str_in_trans)
    then have "any_in order_keywords (lower customer_message)"
      by (simp add: order_keywords_def)
    then show ?thesis by (simp add: detect_intent_def)
  qed
  have ne: "ORDER_LOOKUP \<noteq> SHIPPING_QUESTION"
    by (simp add: ORDER_LOOKUP_def SHIPPING_QUESTION_def)
  have ship: "\<exists>kw \<in> {''shipping'', ''ship'', ''deliver''}. str_in kw (lower customer_message)"
    if s: "detect_intent customer_message ai_response = SHIPPING_QUESTION"
  proof -
    have nd: "\<not> str_in ''delivery time'' (lower customer_message)"
      using order ne s by auto
    have "any_in shipping_keywords (lower customer_message)"
      using s intent_labels_distinct
      by (auto simp add: detect_intent_def Let_def split: if_splits)
    then show ?thesis using nd by (auto simp add: shipping_keywords_def)
  qed
  show ?thesis using order ne ship by auto
qed

theorem delivery_time_never_decides_witness:
  "str_in ''delivery time'' (lower ''What is the Delivery Time to Oslo?'')
   \<and> detect_intent ''What is the Delivery Time to Oslo?'' [] = ORDER_LOOKUP
   \<and> detect_intent ''Do you ship to Oslo?'' [] = SHIPPING_QUESTION
   \<and> \<not> str_in ''delivery time'' (lower ''Do you ship to Oslo?'')"
proof -
  have a: "str_in ''delivery time'' (lower ''What is the Delivery Time to Oslo?'')"
    by (simp add: lower_eval)
  have b: "detect_intent ''Do you ship to Oslo?'' [] = SHIPPING_QUESTION"
    by (simp add: intent_eval)
  show ?thesis
    using a b delivery_time_never_decides [of "''What is the Delivery Time to Oslo?''" "[]"]
      delivery_time_never_decides [of "''Do you ship to Oslo?''" "[]"]
    by blast
qed

section \<open>Reference extraction: order, bound and origin of the ids\<close>

lemmas extract_eval = extract_product_references_def first_mention_references_def mentioned_def
  item_def get_or_def lower_def lower_char_def is_upper_def

text \<open>The loop appends, after what it was given, the ids of the matching rows in catalog order.\<close>

lemma collect_references_filter:
  "collect_references response_lower products referenced_ids =
     referenced_ids @ map p_id
       (filter (\<lambda>p. lower (get_or (p_name p) []) \<noteq> []
                  \<and> str_in (lower (get_or (p_name p) [])) response_lower) products)"
  by (induction products arbitrary: referenced_ids) (simp_all add: Let_def)

lemma extract_product_references_filter:
  "extract_product_references ai_response products =
     take 5 (map p_id (filter (mentioned ai_response) products))"
proof -
  have "mentioned ai_response =
      (\<lambda>p. lower (get_or (p_name p) []) \<noteq> []
                  \<and> str_in (lower (get_or (p_name p) [])) (lower ai_response))"
    by (rule ext) (simp add: mentioned_def)
  then show ?thesis
    by (simp add: extract_product_references_def collect_references_filter)
qed

lemma mentioned_name_nonempty: "mentioned ai_response p \<Longrightarrow> get_or (p_name p) [] \<noteq> []"
  by (auto simp add: mentioned_def lower_Nil_iff)

text \<open>
  Claim C1, as amended. The ids returned by reference extraction are in catalog order:
  they are the ids of the mentioned products in the order in which these products stand
  in the catalog, cut after the fifth; when more than five catalog products are mentioned
  the result has exactly five ids, those of the first five mentioned products of the
  catalog. The position of a name in the response text plays no part.
\<close>

theorem references_in_catalog_order:
  "extract_product_references ai_response products =
     take 5 (map p_id (filter (mentioned ai_response) products))
   \<and> (5 < length (filter (mentioned ai_response) products) \<longrightarrow>
        length (extract_product_references ai_response products) = 5)"
proof (intro conjI impI)
  show "extract_product_references ai_response products =
     take 5 (map p_id (filter (mentioned ai_response) products))"
    by (rule extract_product_references_filter)
next
  assume "5 < length (filter (mentioned ai_response) products)"
  then have "length (take 5 (map p_id (filter (mentioned ai_response) products))) = 5"
    by simp
  then show "length (extract_product_references ai_response products) = 5"
    by (simp only: extract_product_references_filter)
qed

theorem references_in_catalog_order_witness:
  "5 < length (filter (mentioned ''Vase, Clock, Chair, Desk, Lamp and Mug are in stock.'') catalog7)
   \<and> length (extract_product_references
        ''Vase, Clock, Chair, Desk, Lamp and Mug are in stock.'' catalog7) = 5"
proof -
  have h: "5 < length (filter (mentioned ''Vase, Clock, Chair, Desk, Lamp and Mug are in stock.'')
      catalog7)"
    by (simp add: extract_eval catalog7_def)
  show ?thesis
    using h references_in_catalog_order
      [of "''Vase, Clock, Chair, Desk, Lamp and Mug are in stock.''" catalog7]
    by blast
qed

text \<open>
  The claim as first stated, with first-mention order, fails. A response that names the
  second product of a catalog before the first gets the ids in catalog order; and of
  seven products, six of them named from the last to the first, the code returns the
  first five of the catalog, where the first five mentioned are another five.
\<close>

theorem first_mention_order_counterexample:
  "extract_product_references ''Try the Smart Watch or the Wireless Headphones.'' catalog2
     = [''123'', ''456'']
   \<and> first_mention_references ''Try the Smart Watch or the Wireless Headphones.'' catalog2
     = [''456'', ''123'']
   \<and> extract_product_references ''Vase, Clock, Chair, Desk, Lamp and Mug are in stock.'' catalog7
     = [''p1'', ''p2'', ''p3'', ''p4'', ''p5'']
   \<and> first_mention_references ''Vase, Clock, Chair, Desk, Lamp and Mug are in stock.'' catalog7
     = [''p6'', ''p5'', ''p4'', ''p3'', ''p2'']"
  by (simp add: extract_eval catalog2_def catalog7_def)

text \<open>
  Claim C4. For every catalog and every response text, reference extraction returns at
  most five ids, and each of them is the id of a row of the catalog it was given.
\<close>

theorem references_bounded_and_from_catalog:
  "length (extract_product_references ai_response products) \<le> 5
   \<and> set (extract_product_references ai_response products) \<subseteq> p_id ` set products"
proof
  show "length (extract_product_references ai_response products) \<le> 5"
    by (simp add: extract_product_references_filter)
next
  have "set (take 5 (map p_id (filter (mentioned ai_response) products)))
      \<subseteq> set (map p_id (filter (mentioned ai_response) products))"
    by (rule set_take_subset)
  also have "\<dots> \<subseteq> p_id ` set products" by auto
  finally show "set (extract_product_references ai_response products) \<subseteq> p_id ` set products"
    by (simp add: extract_product_references_filter)
qed

text \<open>
  Claim C10. A catalog row whose name is the empty string (or has no name at all) is
  never included by reference extraction, although the empty string occurs in every
  text: dropping these rows from the catalog leaves the result as it is, and in a
  catalog whose ids are all different the id of such a row is not in the result.
\<close>

theorem empty_name_never_referenced:
  "str_in [] (lower ai_response)
   \<and> extract_product_references ai_response products =
     extract_product_references ai_response
       (filter (\<lambda>p. get_or (p_name p) [] \<noteq> []) products)
   \<and> (distinct (map p_id products) \<longrightarrow>
        (\<forall>p \<in> set products. get_or (p_name p) [] = [] \<longrightarrow>
           p_id p \<notin> set (extract_product_references ai_response products)))"
proof (intro conjI)
  show "str_in [] (lower ai_response)"
    by (cases "lower ai_response") simp_all
next
  have "filter (mentioned ai_response) (filter (\<lambda>p. get_or (p_name p) [] \<noteq> []) products)
      = filter (mentioned ai_response) products"
    by (induction products) (auto dest: mentioned_name_nonempty)
  then show "extract_product_references ai_response products =
     extract_product_references ai_response
       (filter (\<lambda>p. get_or (p_name p) [] \<noteq> []) products)"
    by (simp add: extract_product_references_filter)
next
  show "distinct (map p_id products) \<longrightarrow>
        (\<forall>p \<in> set products. get_or (p_name p) [] = [] \<longrightarrow>
           p_id p \<notin> set (extract_product_references ai_response products))"
  proof (intro impI ballI notI)
    fix p
    assume d: "distinct (map p_id products)" and p: "p \<in> set products"
      and e: "get_or (p_name p) [] = []"
      and i: "p_id p \<in> set (extract_product_references ai_response products)"
    from i have "p_id p \<in> set (map p_id (filter (mentioned ai_response) products))"
      using set_take_subset by (fastforce simp add: extract_product_references_filter)
    then obtain q where q: "q \<in> set products" "mentioned ai_response q" "p_id q = p_id p"
      by auto
    from d have "inj_on p_id (set products)" by (simp add: distinct_map)
    with p q have "q = p" by (auto dest: inj_onD)
    with q e show False using mentioned_name_nonempty by blast
  qed
qed

theorem empty_name_never_referenced_witness:
  "distinct (map p_id catalog_unnamed)
   \<and> \<lparr>p_id = ''n1'', p_name = Some [], p_price = ''5.00'', p_description = Absent\<rparr>
        \<in> set catalog_unnamed
   \<and> ''n1'' \<notin> set (extract_product_references ''The Smart Watch is back.'' catalog_unnamed)"
proof -
  have d: "distinct (map p_id catalog_unnamed)"
    by (simp add: catalog_unnamed_def item_def)
  have m: "\<lparr>p_id = ''n1'', p_name = Some [], p_price = ''5.00'', p_description = Absent\<rparr>
        \<in> set catalog_unnamed"
    by (simp add: catalog_unnamed_def)
  have e: "get_or (p_name \<lparr>p_id = ''n1'', p_name = Some [], p_price = ''5.00'',
      p_description = Absent\<rparr>) [] = []"
    by (simp add: get_or_def)
  show ?thesis
    using d m e empty_name_never_referenced [of "''The Smart Watch is back.''" catalog_unnamed]
    by fastforce
qed

section \<open>Response text: what a payload gives\<close>

lemmas payload_eval = payload_with_part_def extract_response_text_def response_text_try_def
  strip_def is_space_def

lemma APOLOGY_nonempty: "APOLOGY \<noteq> []"
  by (simp add: APOLOGY_def)

text \<open>
  The result by the shape of the payload: the apology when there is no first part, the
  empty string when the first part has no \<open>text\<close> key, the stripped text when the key
  holds a string, the apology when it holds anything else.
\<close>

lemma extract_response_text_cases:
  "extract_response_text response_data =
     (case first_part response_data of
        None \<Rightarrow> APOLOGY
      | Some part \<Rightarrow>
          (case map_of part ''text'' of
             None \<Rightarrow> []
           | Some (JStr s) \<Rightarrow> strip s
           | Some _ \<Rightarrow> APOLOGY))"
  unfolding extract_response_text_def response_text_try_def first_part_def
  by (auto simp add: strip_Nil neq_Nil_conv
      split: json.splits list.splits option.splits sum.splits)

lemma nested_text_Some:
  "nested_text d = Some t \<longleftrightarrow>
     (\<exists>part. first_part d = Some part \<and> map_of part ''text'' = Some (JStr t))"
  by (auto simp add: nested_text_def split: option.splits json.splits)

text \<open>
  Claim C2, as amended. For every payload the generation client accepts as a success:
  on a well-formed payload the response text is the candidate text with the white space
  at both ends stripped, and it is non-empty exactly when the candidate text has a
  character that is not white space; on a malformed payload it is the apology string,
  which is not empty, unless the first part merely has no \<open>text\<close> key, when it is the
  empty string.
\<close>

theorem response_text_stripped_or_apology:
  "(\<forall>t. nested_text response_data = Some t \<longrightarrow>
        extract_response_text response_data = strip t
        \<and> (extract_response_text response_data \<noteq> [] \<longleftrightarrow> (\<exists>c \<in> set t. \<not> is_space c)))
   \<and> (nested_text response_data = None \<and> \<not> text_key_missing response_data \<longrightarrow>
        extract_response_text response_data = APOLOGY)
   \<and> (text_key_missing response_data \<longrightarrow> extract_response_text response_data = [])
   \<and> APOLOGY \<noteq> []"
proof (intro conjI allI impI)
  fix t
  assume "nested_text response_data = Some t"
  then obtain part where "first_part response_data = Some part"
    and "map_of part ''text'' = Some (JStr t)"
    using nested_text_Some by blast
  then show s: "extract_response_text response_data = strip t"
    by (simp add: extract_response_text_cases)
  show "extract_response_text response_data \<noteq> [] \<longleftrightarrow> (\<exists>c \<in> set t. \<not> is_space c)"
    using s strip_eq_Nil_iff by simp
next
  assume "nested_text response_data = None \<and> \<not> text_key_missing response_data"
  then show "extract_response_text response_data = APOLOGY"
    by (auto simp add: extract_response_text_cases nested_text_def text_key_missing_def
        split: option.splits json.splits)
next
  assume "text_key_missing response_data"
  then show "extract_response_text response_data = []"
    by (auto simp add: extract_response_text_cases text_key_missing_def split: option.splits)
next
  show "APOLOGY \<noteq> []" by (rule APOLOGY_nonempty)
qed

theorem response_text_stripped_or_apology_witness:
  "nested_text (payload_with_part [(''text'', JStr '' Yes, in stock.\<newline>'')])
     = Some '' Yes, in stock.\<newline>''
   \<and> extract_response_text (payload_with_part [(''text'', JStr '' Yes, in stock.\<newline>'')])
     = strip '' Yes, in stock.\<newline>''
   \<and> nested_text (JObj [(''error'', JStr ''quota'')]) = None
   \<and> \<not> text_key_missing (JObj [(''error'', JStr ''quota'')])
   \<and> extract_response_text (JObj [(''error'', JStr ''quota'')]) = APOLOGY
   \<and> text_key_missing (payload_with_part [])
   \<and> extract_response_text (payload_with_part []) = []"
proof -
  have a: "nested_text (payload_with_part [(''text'', JStr '' Yes, in stock.\<newline>'')])
     = Some '' Yes, in stock.\<newline>''"
    by (simp add: nested_text_def first_part_def payload_with_part_def)
  have b: "nested_text (JObj [(''error'', JStr ''quota'')]) = None
      \<and> \<not> text_key_missing (JObj [(''error'', JStr ''quota'')])"
    by (simp add: nested_text_def first_part_def text_key_missing_def)
  have c: "text_key_missing (payload_with_part [])"
    by (simp add: first_part_def text_key_missing_def payload_with_part_def)
  show ?thesis
    using a b c
      response_text_stripped_or_apology
        [of "payload_with_part [(''text'', JStr '' Yes, in stock.\<newline>'')]"]
      response_text_stripped_or_apology [of "JObj [(''error'', JStr ''quota'')]"]
      response_text_stripped_or_apology [of "payload_with_part []"]
    by blast
qed

text \<open>
  The claim as first stated fails on a well-formed payload whose candidate text is white
  space only: the response text is the empty string.
\<close>

theorem blank_text_counterexample:
  "extract_response_text (payload_with_part [(''text'', JStr '' \<newline>'')]) = []"
  by (simp add: payload_eval)

text \<open>
  Claim C5, as amended. Response-text extraction never raises. It returns the literal
  apology string for every payload without a first part (candidates or parts missing,
  empty or of another shape), for every payload whose first part holds something other
  than a string under \<open>text\<close>, and whenever its \<open>try\<close> block raises. A first part with no
  \<open>text\<close> key is not among these: there the result is the empty string.
\<close>

theorem malformed_payload_gives_apology:
  "(first_part response_data = None \<longrightarrow> extract_response_text response_data = APOLOGY)
   \<and> (\<forall>part v. first_part response_data = Some part \<and> map_of part ''text'' = Some v
          \<and> (\<forall>s. v \<noteq> JStr s) \<longrightarrow> extract_response_text response_data = APOLOGY)
   \<and> (\<forall>e. response_text_try response_data = Inl e \<longrightarrow>
          extract_response_text response_data = APOLOGY)"
proof (intro conjI allI impI)
  assume "first_part response_data = None"
  then show "extract_response_text response_data = APOLOGY"
    by (simp add: extract_response_text_cases)
next
  fix part v
  assume "first_part response_data = Some part \<and> map_of part ''text'' = Some v
          \<and> (\<forall>s. v \<noteq> JStr s)"
  then show "extract_response_text response_data = APOLOGY"
    by (cases v) (simp_all add: extract_response_text_cases)
next
  fix e
  assume "response_text_try response_data = Inl e"
  then show "extract_response_text response_data = APOLOGY"
    by (simp add: extract_response_text_def)
qed

theorem malformed_payload_gives_apology_witness:
  "first_part (JObj [(''promptFeedback'', JObj [])]) = None
   \<and> extract_response_text (JObj [(''promptFeedback'', JObj [])]) = APOLOGY
   \<and> first_part (payload_with_part [(''text'', JNull)]) = Some [(''text'', JNull)]
   \<and> extract_response_text (payload_with_part [(''text'', JNull)]) = APOLOGY
   \<and> response_text_try (JArr []) = Inl (AttributeError (no_attribute (JArr []) ''get''))
   \<and> extract_response_text (JArr []) = APOLOGY"
proof -
  have a: "first_part (JObj [(''promptFeedback'', JObj [])]) = None"
    by (simp add: first_part_def)
  have b: "first_part (payload_with_part [(''text'', JNull)]) = Some [(''text'', JNull)]
      \<and> map_of [(''text'', JNull)] ''text'' = Some JNull \<and> (\<forall>s. JNull \<noteq> JStr s)"
    by (simp add: first_part_def payload_with_part_def)
  have c: "response_text_try (JArr []) = Inl (AttributeError (no_attribute (JArr []) ''get''))"
    by (simp add: response_text_try_def)
  show ?thesis
    using a b c
      malformed_payload_gives_apology [of "JObj [(''promptFeedback'', JObj [])]"]
      malformed_payload_gives_apology [of "payload_with_part [(''text'', JNull)]"]
      malformed_payload_gives_apology [of "JArr []"]
    by blast
qed

text \<open>
  The claim as first stated fails on a payload whose first part carries a function call
  and no text: the nested text is not there, and the result is the empty string, not
  the apology.
\<close>

theorem missing_text_counterexample:
  "nested_text (payload_with_part [(''functionCall'', JObj [])]) = None
   \<and> extract_response_text (payload_with_part [(''functionCall'', JObj [])]) = []
   \<and> extract_response_text (payload_with_part [(''functionCall'', JObj [])]) \<noteq> APOLOGY"
  by (simp add: payload_eval nested_text_def first_part_def APOLOGY_def)

section \<open>Prompt composition: the message and the cue\<close>

text \<open>
  Claim C8. For every system prompt, history and customer message the composed prompt
  contains the customer message verbatim and ends with the cue \<open>Assistant:\<close>.
\<close>

theorem prompt_contains_message_and_cue:
  "str_in customer_message (build_prompt customer_message system_prompt conversation_history)
   \<and> suffix ''Assistant:'' (build_prompt customer_message system_prompt conversation_history)"
proof -
  define parts where "parts =
      (case conversation_history of
         None \<Rightarrow> [system_prompt]
       | Some history \<Rightarrow>
           if history = [] then [system_prompt]
           else [system_prompt] @ [''\<newline>CONVERSATION HISTORY:'']
                  @ concat (map turn_lines (last_n 5 history)))"
  have parts: "parts \<noteq> []"
    by (simp add: parts_def split: option.splits)
  have bp: "build_prompt customer_message system_prompt conversation_history =
      join ''\<newline>'' (parts @ [''\<newline>Customer: '' @ customer_message, ''Assistant:''])"
    by (simp only: build_prompt_def parts_def Let_def)
  have eq: "build_prompt customer_message system_prompt conversation_history =
      (join ''\<newline>'' parts @ ''\<newline>'' @ ''\<newline>Customer: '') @ customer_message
        @ (''\<newline>'' @ ''Assistant:'')"
    using parts bp by (simp add: join_append2)
  have "str_in customer_message
      (build_prompt customer_message system_prompt conversation_history)"
    using eq str_in_iff by blast
  moreover have "suffix ''Assistant:''
      (build_prompt customer_message system_prompt conversation_history)"
    using eq by (simp add: suffix_def)
  ultimately show ?thesis by simp
qed

section \<open>The pipeline when the provider times out\<close>

lemma timeout_raised:
  "provider prompt = TimeoutException \<Longrightarrow>
     call_gemini_api provider prompt =
       Inl (ExternalAPIException ''Gemini API request timed out'' 502 ''EXTERNAL_API_ERROR''
              [(''service'', JStr ''gemini'')])"
  by (simp add: call_gemini_api_def new_ExternalAPIException_def)

text \<open>
  Claim C6. When the provider call times out, \<open>generate_response\<close> raises: the run that
  reaches the call with its prompt and gets a timeout ends in the
  \<open>ExternalAPIException\<close> "Failed to generate AI response" of service gemini, whose
  details carry the timeout as the cause, and returns no result record. With a provider
  that times out on every prompt no run returns a result: each ends in that exception.
\<close>

theorem provider_timeout_is_fatal:
  "(build_context db user_id = Inr ctx
      \<and> build_system_prompt user_id ctx = Inr system_prompt
      \<and> provider (build_prompt customer_message system_prompt conversation_history)
          = TimeoutException
     \<longrightarrow> generate_response db provider response_time_ms user_id customer_message
           conversation_history =
         Inl (ExternalAPIException ''Failed to generate AI response'' 502 ''EXTERNAL_API_ERROR''
                [(''error'', JStr ''Gemini API request timed out''),
                 (''service'', JStr ''gemini'')]))
   \<and> ((\<forall>prompt. provider prompt = TimeoutException)
     \<longrightarrow> (\<exists>details. generate_response db provider response_time_ms user_id customer_message
           conversation_history =
         Inl (ExternalAPIException ''Failed to generate AI response'' 502 ''EXTERNAL_API_ERROR''
                details)))"
proof (intro conjI impI)
  assume "build_context db user_id = Inr ctx
      \<and> build_system_prompt user_id ctx = Inr system_prompt
      \<and> provider (build_prompt customer_message system_prompt conversation_history)
          = TimeoutException"
  then have "generate_response_try db provider response_time_ms user_id customer_message
       conversation_history =
     Inl (ExternalAPIException ''Gemini API request timed out'' 502 ''EXTERNAL_API_ERROR''
              [(''service'', JStr ''gemini'')])"
    by (simp add: generate_response_try_def timeout_raised)
  then show "generate_response db provider response_time_ms user_id customer_message
           conversation_history =
         Inl (ExternalAPIException ''Failed to generate AI response'' 502 ''EXTERNAL_API_ERROR''
                [(''error'', JStr ''Gemini API request timed out''),
                 (''service'', JStr ''gemini'')])"
    by (simp add: generate_response_def new_ExternalAPIException_def)
next
  assume "\<forall>prompt. provider prompt = TimeoutException"
  then have "\<exists>e. generate_response_try db provider response_time_ms user_id customer_message
       conversation_history = Inl e"
    by (simp add: generate_response_try_def timeout_raised Let_def split: sum.splits)
  then show "\<exists>details. generate_response db provider response_time_ms user_id customer_message
           conversation_history =
         Inl (ExternalAPIException ''Failed to generate AI response'' 502 ''EXTERNAL_API_ERROR''
                details)"
    by (auto simp add: generate_response_def new_ExternalAPIException_def)
qed

lemma store1_context:
  "build_context store1 ''u1'' =
     Inr \<lparr>c_store_name = Some ''Gadget Hub'', c_ai_tone = Some ''casual'',
          c_products = catalog2\<rparr>"
  by (simp add: build_context_def store1_def col_get_def catalog2_def)

lemma store1_system_prompt:
  "\<exists>system_prompt.
     build_system_prompt ''u1''
       \<lparr>c_store_name = Some ''Gadget Hub'', c_ai_tone = Some ''casual'',
          c_products = catalog2\<rparr> = Inr system_prompt"
  by (simp add: build_system_prompt_def catalog2_def product_line_def col_get_def Let_def)

theorem provider_timeout_is_fatal_witness:
  "generate_response store1 (\<lambda>prompt. TimeoutException) 15000 ''u1''
       ''Do you have wireless headphones?'' None =
     Inl (ExternalAPIException ''Failed to generate AI response'' 502 ''EXTERNAL_API_ERROR''
            [(''error'', JStr ''Gemini API request timed out''),
             (''service'', JStr ''gemini'')])
   \<and> (\<forall>prompt. (\<lambda>prompt. TimeoutException) prompt = TimeoutException)
   \<and> (\<exists>details. generate_response store1 (\<lambda>prompt. TimeoutException) 15000 ''u1''
       ''Do you have wireless headphones?'' None =
     Inl (ExternalAPIException ''Failed to generate AI response'' 502 ''EXTERNAL_API_ERROR''
            details))"
proof -
  obtain system_prompt where sp:
    "build_system_prompt ''u1''
       \<lparr>c_store_name = Some ''Gadget Hub'', c_ai_tone = Some ''casual'',
          c_products = catalog2\<rparr> = Inr system_prompt"
    using store1_system_prompt by blast
  have t: "(\<lambda>prompt. TimeoutException)
      (build_prompt ''Do you have wireless headphones?'' system_prompt None) = TimeoutException"
    by simp
  have a: "\<forall>prompt. (\<lambda>prompt. TimeoutException) prompt = TimeoutException"
    by simp
  note inst = provider_timeout_is_fatal [of store1 "''u1''" _ system_prompt
      "\<lambda>prompt. TimeoutException" "''Do you have wireless headphones?''" None 15000]
  show ?thesis using inst store1_context sp t a by blast
qed

end
